theory Spec2Isabelle
  imports Complex_Main "HOL-Library.List_Lexorder" "HOL-Library.Char_ord"
begin

section \<open>Common data: errors and string helpers\<close>

text \<open>
  Every exception the modelled code can raise is a value of \<open>error\<close>; a function that
  can raise returns \<open>error + 'a\<close> with \<open>Inl\<close> for the exception.
\<close>

datatype error =
    NameError string
  | AssertionError
  | AppError string
  | ValueError
  | OSError
  | IOError
  | ZeroDivisionError
  | TypeError
  | OverflowError

text \<open>
  \<open>AppError\<close> is \<open>logs2html.Error\<close> (the application's own exception class); the
  others are Python's built-in exceptions of the same name. \<open>OSError\<close> and \<open>IOError\<close>
  are kept apart, as the two classes they are in Python 2.
\<close>

definition newline :: char where
  "newline = CHR 0x0A"

definition isdigit :: "char \<Rightarrow> bool" where
  "isdigit c = (c \<in> set ''0123456789'')"

text \<open>The class \<open>\s\<close> of a byte-string pattern: space, \<open>\t \n \r \f \v\<close>.\<close>

definition isspace :: "char \<Rightarrow> bool" where
  "isspace c = (c \<in> {CHR '' '', CHR 0x09, CHR 0x0A, CHR 0x0B, CHR 0x0C, CHR 0x0D})"

text \<open>\<open>s.startswith(p)\<close> and \<open>sub in s\<close>.\<close>

definition startswith :: "string \<Rightarrow> string \<Rightarrow> bool" where
  "startswith s p = (take (length p) s = p)"

fun contains :: "string \<Rightarrow> string \<Rightarrow> bool" where
  "contains [] sub = (sub = [])"
| "contains (c # cs) sub = (startswith (c # cs) sub \<or> contains cs sub)"

text \<open>\<open>line.rstrip('\r\n')\<close>: drop every trailing carriage return and line feed.\<close>

definition rstrip_crlf :: "string \<Rightarrow> string" where
  "rstrip_crlf s = rev (dropWhile (\<lambda>c. c = CHR 0x0D \<or> c = CHR 0x0A) (rev s))"

section \<open>Log parsing (irclog2html.py, class LogParser)\<close>

datatype kind = COMMENT | ACTION | JOIN | PART | NICKCHANGE | SERVER | OTHER

text \<open>
  The third component of a yielded triple: \<open>(nick, text)\<close> for a comment,
  \<open>(text, oldnick, newnick)\<close> for a nick change, the line itself otherwise.
\<close>

datatype info =
    NickText string string
  | Line string
  | Rename string string string

type_synonym event = "string option \<times> kind \<times> info"

subsection \<open>The three regular expressions\<close>

text \<open>
  Each pattern is anchored at the start of the line and is matched with \<open>match\<close>. The
  matchers below follow the backtracking engine: a greedy optional item is taken when
  it is there (in these patterns skipping it can never succeed afterwards, because the
  next item would have to start with the same character), and a lazy \<open>(.*?)\<close> grows
  by one character, never a line feed, until the rest of the pattern matches.
\<close>

definition take_digits :: "nat \<Rightarrow> string \<Rightarrow> string option" where
  "take_digits n s =
     (if n \<le> length s \<and> list_all isdigit (take n s) then Some (drop n s) else None)"

definition take_char :: "char \<Rightarrow> string \<Rightarrow> string option" where
  "take_char c s = (case s of [] \<Rightarrow> None | x # xs \<Rightarrow> if x = c then Some xs else None)"

definition opt_char :: "char \<Rightarrow> string \<Rightarrow> string" where
  "opt_char c s = (case take_char c s of Some r \<Rightarrow> r | None \<Rightarrow> s)"

text \<open>\<open>(?:\d\d\d\d-\d\d-\d\dT)\<close> at the head of \<open>s\<close>: the rest after it.\<close>

definition iso_date_T :: "string \<Rightarrow> string option" where
  "iso_date_T s =
     Option.bind (take_digits 4 s) (\<lambda>s.
     Option.bind (take_char CHR ''-'' s) (\<lambda>s.
     Option.bind (take_digits 2 s) (\<lambda>s.
     Option.bind (take_char CHR ''-'' s) (\<lambda>s.
     Option.bind (take_digits 2 s) (\<lambda>s.
     take_char CHR ''T'' s)))))"

text \<open>\<open>\d\d:\d\d\<close> and \<open>(:\d\d)\<close>.\<close>

definition hh_mm :: "string \<Rightarrow> string option" where
  "hh_mm s =
     Option.bind (take_digits 2 s) (\<lambda>s.
     Option.bind (take_char CHR '':'' s) (\<lambda>s.
     take_digits 2 s))"

definition colon_ss :: "string \<Rightarrow> string option" where
  "colon_ss s = Option.bind (take_char CHR '':'' s) (take_digits 2)"

text \<open>
  \<open>TIME_REGEXP = ^\[?((?:\d\d\d\d-\d\d-\d\dT)?\d\d:\d\d(:\d\d)?)\]? +\<close>.
  The result is \<open>(m.group(1), line[len(m.group(0)):])\<close>.
\<close>

definition TIME_REGEXP_match :: "string \<Rightarrow> (string \<times> string) option" where
  "TIME_REGEXP_match line =
     (let s1 = opt_char CHR ''['' line;
          s2 = (case iso_date_T s1 of Some r \<Rightarrow> r | None \<Rightarrow> s1)
      in case hh_mm s2 of
           None \<Rightarrow> None
         | Some s3 \<Rightarrow>
             let s4 = (case colon_ss s3 of Some r \<Rightarrow> r | None \<Rightarrow> s3);
                 time = take (length s1 - length s4) s1;
                 s5 = opt_char CHR '']'' s4
             in if startswith s5 '' '' then Some (time, dropWhile (\<lambda>c. c = CHR '' '') s5)
                else None)"

text \<open>
  \<open>NICK_REGEXP = ^<(.*?)>\s\<close>. \<open>nick_scan\<close> reads what follows the opening
  bracket; the result is \<open>(m.group(1), line[len(m.group(0)):])\<close>.
\<close>

fun nick_scan :: "string \<Rightarrow> (string \<times> string) option" where
  "nick_scan [] = None"
| "nick_scan (c # cs) =
     (if c = CHR ''>'' \<and> cs \<noteq> [] \<and> isspace (hd cs) then Some ([], tl cs)
      else if c = newline then None
      else map_option (\<lambda>(nick, text). (c # nick, text)) (nick_scan cs))"

definition NICK_REGEXP_match :: "string \<Rightarrow> (string \<times> string) option" where
  "NICK_REGEXP_match line =
     (case take_char CHR ''<'' line of None \<Rightarrow> None | Some rest \<Rightarrow> nick_scan rest)"

text \<open>
  \<open>NICK_CHANGE_REGEXP = ^(?:\*\*\*|---) (.*?) (?:are|is) now known as (.*)\<close>.
  \<open>nick_change_scan\<close> reads what follows the prefix and its space; the result is
  \<open>(m.group(1), m.group(2))\<close>.
\<close>

fun nick_change_scan :: "string \<Rightarrow> (string \<times> string) option" where
  "nick_change_scan [] = None"
| "nick_change_scan (c # cs) =
     (if startswith (c # cs) '' are now known as ''
      then Some ([], takeWhile (\<lambda>x. x \<noteq> newline) (drop 18 (c # cs)))
      else if startswith (c # cs) '' is now known as ''
      then Some ([], takeWhile (\<lambda>x. x \<noteq> newline) (drop 17 (c # cs)))
      else if c = newline then None
      else map_option (\<lambda>(old, new). (c # old, new)) (nick_change_scan cs))"

definition NICK_CHANGE_REGEXP_match :: "string \<Rightarrow> (string \<times> string) option" where
  "NICK_CHANGE_REGEXP_match line =
     (if startswith line ''*** '' \<or> startswith line ''--- ''
      then nick_change_scan (drop 4 line) else None)"

subsection \<open>Classifying one line: the body of \<open>LogParser.__iter__\<close>\<close>

text \<open>
  \<open>strip_time\<close> is the first step of the loop body: the optional time stamp and the
  line after it. \<open>classify_rest\<close> is the \<open>if/elif\<close> chain on that remainder. In the
  nick-change branch the source binds \<open>nick_old\<close> and \<open>nick_new\<close> and then builds the
  tuple \<open>(line, oldnick, newnick)\<close>: \<open>oldnick\<close> is bound nowhere, so evaluating the
  tuple raises \<open>NameError\<close> and nothing is yielded.
\<close>

definition strip_time :: "string \<Rightarrow> string option \<times> string" where
  "strip_time line =
     (case TIME_REGEXP_match line of
        Some (time, rest) \<Rightarrow> (Some time, rest)
      | None \<Rightarrow> (None, line))"

definition classify_rest :: "string option \<Rightarrow> string \<Rightarrow> error + event" where
  "classify_rest time line =
     (case NICK_REGEXP_match line of
        Some (nick, text) \<Rightarrow> Inr (time, COMMENT, NickText nick text)
      | None \<Rightarrow>
          if startswith line ''* '' then Inr (time, ACTION, Line line)
          else if startswith line ''*** '' \<or> startswith line ''--> '' \<and> contains line ''joined''
          then Inr (time, JOIN, Line line)
          else if startswith line ''*** ''
                  \<or> startswith line ''--> '' \<and> (contains line ''left'' \<or> contains line ''quit'')
          then Inr (time, PART, Line line)
          else (case NICK_CHANGE_REGEXP_match line of
                  Some (nick_old, nick_new) \<Rightarrow> Inl (NameError ''oldnick'')
                | None \<Rightarrow>
                    if startswith line ''*** '' \<or> startswith line ''--- ''
                    then Inr (time, SERVER, Line line)
                    else Inr (time, OTHER, Line line)))"

definition classify :: "string \<Rightarrow> error + event" where
  "classify line = (case strip_time line of (time, rest) \<Rightarrow> classify_rest time rest)"

text \<open>
  The generator itself: the events yielded for a sequence of raw lines, and the
  exception that ended the iteration, if one did. Blank lines are skipped.
\<close>

fun LogParser_iter :: "string list \<Rightarrow> event list \<times> error option" where
  "LogParser_iter [] = ([], None)"
| "LogParser_iter (raw # raws) =
     (let line = rstrip_crlf raw
      in if line = [] then LogParser_iter raws
         else case classify line of
                Inl e \<Rightarrow> ([], Some e)
              | Inr ev \<Rightarrow> (case LogParser_iter raws of (evs, r) \<Rightarrow> (ev # evs, r)))"

definition kind_of :: "error + event \<Rightarrow> kind option" where
  "kind_of r = (case r of Inl e \<Rightarrow> None | Inr (time, k, i) \<Rightarrow> Some k)"

section \<open>Colours (irclog2html.py, classes ColourChooser and NickColourizer)\<close>

subsection \<open>Floating-point numbers\<close>

text \<open>
  A finite Python \<open>float\<close> is a rational number here, and every floating-point
  operation (a conversion from \<open>int\<close>, a literal, a product, a quotient, a sum) is the
  exact operation followed by a rounding function \<open>rnd\<close>, which the definitions take as
  a parameter: the rounding of double precision with an exponent that has no bounds.
  \<open>rounding rnd\<close> is what the theorems assume of it: the relative error of one rounding
  is at most \<open>2\<^sup>-\<^sup>5\<^sup>3\<close> and rounding is monotone. \<open>id\<close>, the exact arithmetic, is one such
  rounding.

  The bounded exponent is written out. A rounded value of magnitude \<open>2\<^sup>1\<^sup>0\<^sup>2\<^sup>4\<close> or more
  is beyond the largest double: converting such an integer raises \<open>OverflowError\<close>, and
  an arithmetic operation with such a result returns an infinity (\<open>Inf\<close>, of either
  sign). \<open>int(x)\<close> truncates a finite float towards zero and raises \<open>OverflowError\<close>
  for an infinity.
\<close>

definition rounding :: "(rat \<Rightarrow> rat) \<Rightarrow> bool" where
  "rounding rnd = ((\<forall>x. \<bar>rnd x - x\<bar> \<le> \<bar>x\<bar> / 2 ^ 53) \<and> mono rnd)"

datatype pyfloat = Fin rat | Inf

definition float_limit :: rat where
  "float_limit = 2 ^ 1024"

definition fl :: "(rat \<Rightarrow> rat) \<Rightarrow> rat \<Rightarrow> pyfloat" where
  "fl rnd x = (if \<bar>rnd x\<bar> < float_limit then Fin (rnd x) else Inf)"

definition float_of_int :: "(rat \<Rightarrow> rat) \<Rightarrow> int \<Rightarrow> error + rat" where
  "float_of_int rnd k =
     (if \<bar>rnd (of_int k)\<bar> < float_limit then Inr (rnd (of_int k)) else Inl OverflowError)"

definition py_int :: "rat \<Rightarrow> int" where
  "py_int x = (if 0 \<le> x then \<lfloor>x\<rfloor> else \<lceil>x\<rceil>)"

subsection \<open>The format \<open>%02x\<close>\<close>

definition hexdigit :: "nat \<Rightarrow> char" where
  "hexdigit d = ''0123456789abcdef'' ! d"

function hex_nat :: "nat \<Rightarrow> string" where
  "hex_nat n = (if n < 16 then [hexdigit n] else hex_nat (n div 16) @ [hexdigit (n mod 16)])"
  by pat_completeness auto
termination
  by (relation "measure id") auto

declare hex_nat.simps [simp del]

text \<open>
  \<open>'%02x' % v\<close>: the lower-case hexadecimal digits of \<open>\<bar>v\<bar>\<close>, after the sign if there
  is one, padded with zeros to a width of two.
\<close>

definition fmt_02x :: "int \<Rightarrow> string" where
  "fmt_02x v =
     (let sign = (if v < 0 then ''-'' else []);
          ds = hex_nat (nat \<bar>v\<bar>)
      in sign @ replicate (2 - length sign - length ds) CHR ''0'' @ ds)"

text \<open>A string that the pattern \<open>#[0-9a-f]{6}\<close> matches in full.\<close>

definition is_rrggbb :: "string \<Rightarrow> bool" where
  "is_rrggbb s =
     (case s of
        [] \<Rightarrow> False
      | c # cs \<Rightarrow> c = CHR ''#'' \<and> length cs = 6 \<and> list_all (\<lambda>d. d \<in> set ''0123456789abcdef'') cs)"

subsection \<open>ColourChooser\<close>

record ColourChooser =
  rgbmin :: int
  rgbmax :: int
  rgb :: "(rat \<times> rat \<times> rat) list"

text \<open>
  \<open>ColourChooser.__init__(rgbmin, rgbmax, rgb, a, b)\<close> with its assertions;
  \<open>if not rgb\<close> holds for \<open>None\<close> and for the empty list.
\<close>

definition unit_interval :: "rat \<Rightarrow> bool" where
  "unit_interval x = (0 \<le> x \<and> x \<le> 1)"

definition ColourChooser_init ::
  "int \<Rightarrow> int \<Rightarrow> (rat \<times> rat \<times> rat) list option \<Rightarrow> rat \<Rightarrow> rat \<Rightarrow> error + ColourChooser" where
  "ColourChooser_init lo hi rgb_arg a b =
     (if \<not> (0 \<le> lo \<and> lo < 256) then Inl AssertionError
      else if \<not> (0 \<le> hi \<and> hi < 256) then Inl AssertionError
      else if rgb_arg = None \<or> rgb_arg = Some [] then
        (if \<not> unit_interval a then Inl AssertionError
         else if \<not> unit_interval b then Inl AssertionError
         else Inr \<lparr>rgbmin = lo, rgbmax = hi,
                   rgb = [(a, b, b), (b, a, b), (b, b, a), (a, a, b), (a, b, a), (b, a, a)]\<rparr>)
      else if list_all (\<lambda>(r, g, b). unit_interval r \<and> unit_interval g \<and> unit_interval b)
                (the rgb_arg)
      then Inr \<lparr>rgbmin = lo, rgbmax = hi, rgb = the rgb_arg\<rparr>
      else Inl AssertionError)"

text \<open>\<open>ColourChooser()\<close>: the defaults; \<open>0.95\<close> and \<open>0.5\<close> are float literals.\<close>

definition ColourChooser_default :: "(rat \<Rightarrow> rat) \<Rightarrow> error + ColourChooser" where
  "ColourChooser_default rnd = ColourChooser_init 240 125 None (rnd (95 / 100)) (rnd (5 / 10))"

text \<open>
  The value bound to \<open>m\<close> in \<open>choose\<close>:
  \<open>self.rgbmin + (self.rgbmax - self.rgbmin) * float(n - i) / n\<close>. \<open>float(n - i)\<close>
  is evaluated first; then the product, the quotient and the sum, each converting its
  integer operand. The divisor is the float of \<open>n\<close>; a zero divisor raises
  \<open>ZeroDivisionError\<close>. An infinite product stays infinite through the quotient by a
  finite divisor and through the sum.
\<close>

definition magnitude :: "(rat \<Rightarrow> rat) \<Rightarrow> ColourChooser \<Rightarrow> int \<Rightarrow> int \<Rightarrow> error + pyfloat" where
  "magnitude rnd cc i n =
     (case float_of_int rnd (n - i) of
        Inl e \<Rightarrow> Inl e
      | Inr k \<Rightarrow>
          (case float_of_int rnd (rgbmax cc - rgbmin cc) of
             Inl e \<Rightarrow> Inl e
           | Inr a \<Rightarrow>
               (case float_of_int rnd n of
                  Inl e \<Rightarrow> Inl e
                | Inr d \<Rightarrow>
                    if d = 0 then Inl ZeroDivisionError
                    else (case float_of_int rnd (rgbmin cc) of
                            Inl e \<Rightarrow> Inl e
                          | Inr l \<Rightarrow>
                              Inr (case fl rnd (a * k) of
                                     Inf \<Rightarrow> Inf
                                   | Fin p \<Rightarrow>
                                       (case fl rnd (p / d) of
                                          Inf \<Rightarrow> Inf
                                        | Fin q \<Rightarrow> fl rnd (l + q)))))))"

text \<open>
  One channel, \<open>int(h * m)\<close> for a hue component \<open>h\<close>: the product of zero and an
  infinity is not a number, for which \<open>int\<close> raises \<open>ValueError\<close>.
\<close>

definition colour_channel :: "(rat \<Rightarrow> rat) \<Rightarrow> rat \<Rightarrow> pyfloat \<Rightarrow> error + int" where
  "colour_channel rnd h m =
     (case m of
        Fin x \<Rightarrow> (case fl rnd (h * x) of Fin y \<Rightarrow> Inr (py_int y) | Inf \<Rightarrow> Inl OverflowError)
      | Inf \<Rightarrow> if h = 0 then Inl ValueError else Inl OverflowError)"

definition byte_range :: "int \<Rightarrow> bool" where
  "byte_range v = (0 \<le> v \<and> v < 256)"

text \<open>
  \<open>ColourChooser.choose(i, n)\<close>. The three products are formed before \<open>int\<close> is
  applied to them in turn, and the assertions come last.
\<close>

definition ColourChooser_choose :: "(rat \<Rightarrow> rat) \<Rightarrow> ColourChooser \<Rightarrow> int \<Rightarrow> int \<Rightarrow> error + string" where
  "ColourChooser_choose rnd cc i n0 =
     (let n = (if n0 = 0 then 1 else n0)
      in if rgb cc = [] then Inl ZeroDivisionError
         else (case rgb cc ! nat (i mod int (length (rgb cc))) of
                 (hr, hg, hb) \<Rightarrow>
                   (case magnitude rnd cc i n of
                      Inl e \<Rightarrow> Inl e
                    | Inr m \<Rightarrow>
                        (case colour_channel rnd hr m of
                           Inl e \<Rightarrow> Inl e
                         | Inr r \<Rightarrow>
                             (case colour_channel rnd hg m of
                                Inl e \<Rightarrow> Inl e
                              | Inr g \<Rightarrow>
                                  (case colour_channel rnd hb m of
                                     Inl e \<Rightarrow> Inl e
                                   | Inr b \<Rightarrow>
                                       if \<not> byte_range r then Inl AssertionError
                                       else if \<not> byte_range g then Inl AssertionError
                                       else if \<not> byte_range b then Inl AssertionError
                                       else Inr (''#'' @ fmt_02x r @ fmt_02x g @ fmt_02x b)))))))"

subsection \<open>NickColourizer\<close>

record NickColourizer =
  colour_chooser :: ColourChooser
  nickcount :: int
  maxnicks :: int
  nick_colour :: "string \<rightharpoonup> string"

text \<open>
  \<open>NickColourizer.__getitem__\<close>: the colour of \<open>nick\<close> and the colourizer after the
  call. A missing key and an empty colour string are both \<open>not colour\<close>. The counters
  are updated before \<open>choose\<close> can raise.
\<close>

definition NickColourizer_getitem ::
  "(rat \<Rightarrow> rat) \<Rightarrow> NickColourizer \<Rightarrow> string \<Rightarrow> (error + string) \<times> NickColourizer" where
  "NickColourizer_getitem rnd nc nick =
     (let colour = nick_colour nc nick
      in if colour = None \<or> colour = Some [] then
           let nc1 = nc\<lparr>nickcount := nickcount nc + 1\<rparr>;
               nc2 = (if nickcount nc1 \<ge> maxnicks nc1
                      then nc1\<lparr>maxnicks := maxnicks nc1 * 2\<rparr> else nc1)
           in case ColourChooser_choose rnd (colour_chooser nc2) (nickcount nc2) (maxnicks nc2) of
                Inl e \<Rightarrow> (Inl e, nc2)
              | Inr c \<Rightarrow> (Inr c, nc2\<lparr>nick_colour := (nick_colour nc2)(nick \<mapsto> c)\<rparr>)
         else (Inr (the colour), nc))"

text \<open>
  \<open>NickColourizer.nickchange\<close>: \<open>pop(oldnick)\<close> removes the old key and returns its
  colour, which is then stored under \<open>newnick\<close>.
\<close>

definition nickchange :: "NickColourizer \<Rightarrow> string \<Rightarrow> string \<Rightarrow> NickColourizer" where
  "nickchange nc oldnick newnick =
     (if oldnick \<in> dom (nick_colour nc)
      then nc\<lparr>nick_colour := ((nick_colour nc)(oldnick := None))(newnick := nick_colour nc oldnick)\<rparr>
      else nc)"

section \<open>Links (irclog2html.py, createlinks)\<close>

text \<open>
  \<open>URL_REGEXP = (http|https|ftp|gopher|news)://\S*\<close>. \<open>url_prefix\<close> is the length of
  the scheme and \<open>://\<close> at the head of a string, the alternatives tried in the pattern's
  order; \<open>URL_REGEXP_match\<close> gives \<open>m.group(0)\<close> and what follows the match.
\<close>

definition url_prefix :: "string \<Rightarrow> nat option" where
  "url_prefix s =
     (if startswith s ''http://'' then Some 7
      else if startswith s ''https://'' then Some 8
      else if startswith s ''ftp://'' then Some 6
      else if startswith s ''gopher://'' then Some 9
      else if startswith s ''news://'' then Some 7
      else None)"

definition URL_REGEXP_match :: "string \<Rightarrow> (string \<times> string) option" where
  "URL_REGEXP_match s =
     (case url_prefix s of
        None \<Rightarrow> None
      | Some k \<Rightarrow>
          Some (take k s @ takeWhile (\<lambda>c. \<not> isspace c) (drop k s),
                dropWhile (\<lambda>c. \<not> isspace c) (drop k s)))"

text \<open>
  What the replacement template \<^verbatim>\<open><a href="\0">\0</a>\<close> expands to for a match. In a
  replacement template of Python's \<open>re\<close> module a backslash followed by \<open>0\<close> is an
  octal escape, here the character with code 0; the whole match is \<^verbatim>\<open>\g<0>\<close>. So
  the expansion is the same for every match and does not contain the matched text.
\<close>

definition link_template_expansion :: string where
  "link_template_expansion =
     ''<a href='' @ [CHR 0x22, CHR 0x00, CHR 0x22] @ ''>'' @ [CHR 0x00] @ ''</a>''"

lemma startswith_length: "startswith s p \<Longrightarrow> length p \<le> length s"
proof -
  assume "startswith s p"
  then have "length (take (length p) s) = length p"
    by (simp add: startswith_def)
  then show ?thesis by simp
qed

lemma URL_REGEXP_match_shorter:
  "URL_REGEXP_match s = Some (url, rest) \<Longrightarrow> length rest < length s"
proof -
  assume m: "URL_REGEXP_match s = Some (url, rest)"
  then obtain k where k: "url_prefix s = Some k"
    and rest: "rest = dropWhile (\<lambda>c. \<not> isspace c) (drop k s)"
    by (auto simp: URL_REGEXP_match_def split: option.splits)
  from k have "0 < k" "k \<le> length s"
    by (auto simp: url_prefix_def split: if_splits dest: startswith_length)
  have "length rest \<le> length (drop k s)"
    unfolding rest by (rule length_dropWhile_le)
  with \<open>0 < k\<close> \<open>k \<le> length s\<close> show ?thesis by simp
qed

text \<open>
  \<open>createlinks\<close>: \<open>URL_REGEXP.sub\<close> scans from the left, replaces each match by the
  expansion of the template and goes on after the match.
\<close>

function createlinks :: "string \<Rightarrow> string" where
  "createlinks [] = []"
| "createlinks (c # cs) =
     (case URL_REGEXP_match (c # cs) of
        Some (url, rest) \<Rightarrow> link_template_expansion @ createlinks rest
      | None \<Rightarrow> c # createlinks cs)"
  by pat_completeness auto
termination
  by (relation "measure length") (auto dest: URL_REGEXP_match_shorter)

section \<open>Example inputs\<close>

text \<open>
  The chooser that \<open>ColourChooser()\<close> builds when the arithmetic is exact, and a
  colourizer that has given the nickname \<open>a\<close> its colour.
\<close>

definition exact_default_chooser :: ColourChooser where
  "exact_default_chooser =
     \<lparr>rgbmin = 240, rgbmax = 125,
      rgb = [(19 / 20, 1 / 2, 1 / 2), (1 / 2, 19 / 20, 1 / 2), (1 / 2, 1 / 2, 19 / 20),
             (19 / 20, 19 / 20, 1 / 2), (19 / 20, 1 / 2, 19 / 20), (1 / 2, 19 / 20, 19 / 20)]\<rparr>"

definition demo_colourizer :: NickColourizer where
  "demo_colourizer =
     \<lparr>colour_chooser = exact_default_chooser, nickcount = 1, maxnicks = 30,
      nick_colour = [''a'' \<mapsto> ''#4c924c'']\<rparr>"

section \<open>The archive builder (logs2html.py)\<close>

subsection \<open>Dates in file names\<close>

text \<open>
  \<open>datetime.date(year, month, day)\<close> raises \<open>ValueError\<close> unless the year is in
  \<open>1..9999\<close>, the month in \<open>1..12\<close> and the day in the month.
\<close>

record date =
  year :: int
  month :: int
  day :: int

definition is_leap :: "int \<Rightarrow> bool" where
  "is_leap y = (y mod 4 = 0 \<and> (y mod 100 \<noteq> 0 \<or> y mod 400 = 0))"

definition days_in_month :: "int \<Rightarrow> int \<Rightarrow> int" where
  "days_in_month y m =
     (if m = 2 then (if is_leap y then 29 else 28)
      else if m = 4 \<or> m = 6 \<or> m = 9 \<or> m = 11 then 30 else 31)"

definition datetime_date :: "int \<Rightarrow> int \<Rightarrow> int \<Rightarrow> error + date" where
  "datetime_date y m d =
     (if \<not> (1 \<le> y \<and> y \<le> 9999) then Inl ValueError
      else if \<not> (1 \<le> m \<and> m \<le> 12) then Inl ValueError
      else if \<not> (1 \<le> d \<and> d \<le> days_in_month y m) then Inl ValueError
      else Inr \<lparr>year = y, month = m, day = d\<rparr>)"

text \<open>\<open>int(s)\<close> for a string of decimal digits.\<close>

definition digit_value :: "char \<Rightarrow> int" where
  "digit_value c = int (of_char c) - 48"

definition int_of_digits :: "string \<Rightarrow> int" where
  "int_of_digits s = foldl (\<lambda>acc c. 10 * acc + digit_value c) 0 s"

text \<open>
  \<open>DATE_REGEXP = ^.*(\d\d\d\d)-?(\d\d)-?(\d\d)\<close>. \<open>date_at\<close> matches the three groups
  at the head of a string. The greedy \<open>.*\<close> first runs to the end of the string (or to
  a line feed) and then gives characters back one by one, so the match found is the
  rightmost one: \<open>DATE_REGEXP_match\<close> tries the later positions before the head.
\<close>

definition date_at :: "string \<Rightarrow> (string \<times> string \<times> string) option" where
  "date_at s =
     (case take_digits 4 s of
        None \<Rightarrow> None
      | Some r1 \<Rightarrow>
          (let s1 = opt_char CHR ''-'' r1
           in (case take_digits 2 s1 of
                 None \<Rightarrow> None
               | Some r2 \<Rightarrow>
                   (let s2 = opt_char CHR ''-'' r2
                    in (case take_digits 2 s2 of
                          None \<Rightarrow> None
                        | Some r3 \<Rightarrow> Some (take 4 s, take 2 s1, take 2 s2))))))"

fun DATE_REGEXP_match :: "string \<Rightarrow> (string \<times> string \<times> string) option" where
  "DATE_REGEXP_match [] = date_at []"
| "DATE_REGEXP_match (c # cs) =
     (case (if c = newline then None else DATE_REGEXP_match cs) of
        Some groups \<Rightarrow> Some groups
      | None \<Rightarrow> date_at (c # cs))"

subsection \<open>Paths\<close>

text \<open>\<open>os.path.basename\<close> and \<open>os.path.join\<close> of two components (POSIX).\<close>

definition os_path_basename :: "string \<Rightarrow> string" where
  "os_path_basename p = rev (takeWhile (\<lambda>c. c \<noteq> CHR ''/'') (rev p))"

definition endswith :: "string \<Rightarrow> string \<Rightarrow> bool" where
  "endswith s p = startswith (rev s) (rev p)"

definition os_path_join :: "string \<Rightarrow> string \<Rightarrow> string" where
  "os_path_join a b =
     (if startswith b ''/'' then b
      else if a = [] \<or> endswith a ''/'' then a @ b
      else a @ ''/'' @ b)"

subsection \<open>LogFile\<close>

text \<open>
  \<open>newfile_attr\<close> is the attribute \<open>_newfile\<close>: absent (\<open>None\<close>) until \<open>newfile()\<close>
  is first called on the object.
\<close>

record LogFile =
  filename :: string
  date :: date
  link :: string
  title :: string
  newfile_attr :: "bool option"

record options =
  style :: string
  title :: string
  prefix :: string
  force :: bool
  searchbox :: bool
  dircproxy :: bool
  pattern :: string

subsection \<open>The operating system and the collaborators outside the source\<close>

text \<open>
  The file system is a state of some type \<open>'w\<close>; what the code asks of it, and the
  functions of the package that are not among the source files, are the fields of one
  record of parameters:
  \<^item> \<open>glob\<close>, \<open>stat_mtime\<close> (\<open>os.stat(path).st_mtime\<close>, \<open>None\<close> where \<open>os.stat\<close>
    raises \<open>OSError\<close>), \<open>has_symlink\<close> (\<open>hasattr(os, "symlink")\<close>), \<open>unlink\<close>,
    \<open>symlink\<close>, \<open>open_write\<close> (\<open>open(path, 'w')\<close>), \<open>open_read\<close>
    (\<open>open(path, 'rb').read()\<close>), \<open>copy\<close> (\<open>shutil.copy\<close>) and \<open>strftime\<close>;
  \<^item> \<open>irclog2html_main\<close> (\<open>irclog2html.main(argv)\<close>, which renders one log file),
    \<open>pick_output_filename\<close> and \<open>CSS_FILE\<close>;
  \<^item> \<open>print_index\<close>: writing the text of \<open>write_index\<close> to the opened file and
    closing it (the HTML templates of \<open>write_index\<close> are not reproduced), and
    \<open>index_text\<close>, the same text written to a stream in memory;
  \<^item> for the web application: \<open>os_environ\<close>, \<open>DEFAULT_LOGFILE_PATH\<close>,
    \<open>DEFAULT_LOGFILE_PATTERN\<close>, \<open>dir_listing\<close>, \<open>search_page\<close>,
    \<open>convert_irc_log\<close> (given the log's bytes and the title) and \<open>recode\<close> (the
    lines of a file after \<open>LogParser.decode\<close> and encoding as UTF-8).
  An operation that changes the file system returns the new state, or the exception it
  raised.
\<close>

record 'w os =
  glob :: "'w \<Rightarrow> string \<Rightarrow> string list"
  stat_mtime :: "'w \<Rightarrow> string \<Rightarrow> rat option"
  has_symlink :: bool
  unlink :: "string \<Rightarrow> 'w \<Rightarrow> error + 'w"
  symlink :: "string \<Rightarrow> string \<Rightarrow> 'w \<Rightarrow> error + 'w"
  open_write :: "string \<Rightarrow> 'w \<Rightarrow> error + 'w"
  open_read :: "'w \<Rightarrow> string \<Rightarrow> error + string"
  copy :: "string \<Rightarrow> string \<Rightarrow> 'w \<Rightarrow> error + 'w"
  strftime :: "date \<Rightarrow> string \<Rightarrow> string"
  irclog2html_main :: "string list \<Rightarrow> 'w \<Rightarrow> error + 'w"
  pick_output_filename :: "string \<Rightarrow> string"
  CSS_FILE :: string
  print_index :: "string \<Rightarrow> string \<Rightarrow> LogFile list \<Rightarrow> bool \<Rightarrow> string option \<Rightarrow> 'w \<Rightarrow> error + 'w"
  index_text :: "string \<Rightarrow> LogFile list \<Rightarrow> bool \<Rightarrow> string option \<Rightarrow> string"
  os_environ :: "string \<rightharpoonup> string"
  DEFAULT_LOGFILE_PATH :: string
  DEFAULT_LOGFILE_PATTERN :: string
  dir_listing :: "'w \<Rightarrow> string \<Rightarrow> error + string"
  search_page :: "'w \<Rightarrow> string \<Rightarrow> string \<Rightarrow> error + string"
  convert_irc_log :: "string \<Rightarrow> string \<Rightarrow> error + string"
  recode :: "string \<Rightarrow> string list"


text \<open>\<open>LogFile.__init__\<close>.\<close>

definition LogFile_init :: "'w os \<Rightarrow> string \<Rightarrow> error + LogFile" where
  "LogFile_init os fname =
     (let basename = os_path_basename fname
      in (case DATE_REGEXP_match basename of
            None \<Rightarrow> Inl (AppError (''File name does not contain a YYYY-MM-DD date: '' @ fname))
          | Some (y, m, d) \<Rightarrow>
              (case datetime_date (int_of_digits y) (int_of_digits m) (int_of_digits d) of
                 Inl e \<Rightarrow> Inl e
               | Inr dt \<Rightarrow>
                   Inr \<lparr>filename = fname, date = dt, link = pick_output_filename os basename,
                        title = strftime os dt ''%Y-%m-%d (%A)'', newfile_attr = None\<rparr>)))"




subsection \<open>find_log_files\<close>

text \<open>
  The list comprehension builds the objects in the order of the two globs; the first
  constructor that raises ends it.
\<close>

fun construct_all :: "('a \<Rightarrow> error + 'b) \<Rightarrow> 'a list \<Rightarrow> error + 'b list" where
  "construct_all f [] = Inr []"
| "construct_all f (x # xs) =
     (case f x of
        Inl e \<Rightarrow> Inl e
      | Inr y \<Rightarrow> (case construct_all f xs of Inl e \<Rightarrow> Inl e | Inr ys \<Rightarrow> Inr (y # ys)))"

definition discovered :: "'w os \<Rightarrow> 'w \<Rightarrow> string \<Rightarrow> string \<Rightarrow> string list" where
  "discovered os w directory pat =
     glob os w (os_path_join directory pat) @ glob os w (os_path_join directory pat @ ''.gz'')"

definition find_log_files :: "'w os \<Rightarrow> 'w \<Rightarrow> string \<Rightarrow> string \<Rightarrow> error + LogFile list" where
  "find_log_files os w directory pat =
     (case construct_all (LogFile_init os) (discovered os w directory pat) of
        Inl e \<Rightarrow> Inl e
      | Inr lfs \<Rightarrow> Inr (sort_key filename lfs))"

subsection \<open>process\<close>











text \<open>
  A small file system for the examples: a state maps each path that exists to its
  modification time. Three logs are found; the newest has no rendered page yet.
\<close>

definition demo_os :: "(string \<rightharpoonup> rat) os" where
  "demo_os =
     \<lparr>glob = (\<lambda>w p. if p = ''logs/*.log''
                     then [''logs/chan.2005-01-02.log'', ''logs/chan.2005-01-01.log'',
                           ''logs/chan.2005-01-03.log'']
                     else []),
      stat_mtime = (\<lambda>w p. w p),
      has_symlink = True,
      unlink = (\<lambda>p w. if w p = None then Inl OSError else Inr (w(p := None))),
      symlink = (\<lambda>src dst w. Inr (w(dst \<mapsto> 50))),
      open_write = (\<lambda>p w. Inr (w(p \<mapsto> 50))),
      open_read = (\<lambda>w p. if w p = None then Inl IOError else Inr []),
      copy = (\<lambda>src dst w. Inr (w(dst \<mapsto> 50))),
      strftime = (\<lambda>d f. f),
      irclog2html_main = (\<lambda>argv w. Inr (w(last argv @ ''.html'' \<mapsto> 50))),
      pick_output_filename = (\<lambda>b. b @ ''.html''),
      CSS_FILE = ''/usr/share/irclog2html/irclog.css'',
      print_index = (\<lambda>p t lfs sb latest w. Inr w),
      index_text = (\<lambda>t lfs sb latest. []),
      os_environ = Map.empty,
      DEFAULT_LOGFILE_PATH = ''/var/www/irclogs/'',
      DEFAULT_LOGFILE_PATTERN = ''*.log'',
      dir_listing = (\<lambda>w p. Inr []),
      search_page = (\<lambda>w p q. Inr []),
      convert_irc_log = (\<lambda>bytes t. Inr []),
      recode = (\<lambda>s. [s])\<rparr>"

definition demo_world :: "string \<rightharpoonup> rat" where
  "demo_world =
     [''logs/chan.2005-01-01.log'' \<mapsto> 10, ''logs/chan.2005-01-01.log.html'' \<mapsto> 11,
      ''logs/chan.2005-01-02.log'' \<mapsto> 20, ''logs/chan.2005-01-02.log.html'' \<mapsto> 21,
      ''logs/chan.2005-01-03.log'' \<mapsto> 30]"


subsection \<open>The staleness test as the specification states it\<close>









section \<open>The web application (irclogserver.py)\<close>

text \<open>
  A request is its \<open>environ\<close> dictionary, of which the string entries are modelled. The
  entry \<open>wsgi.input\<close>, which every WSGI request has, and the form that
  \<open>cgi.FieldStorage\<close> reads from it are passed to \<open>search_page\<close> only and are left
  out. The functions that print to the stream return the text they print.
\<close>

text \<open>The truth value of an optional string: \<open>None\<close> and the empty string are false.\<close>

definition truthy :: "string option \<Rightarrow> bool" where
  "truthy v = (v \<noteq> None \<and> v \<noteq> Some [])"

text \<open>\<open>environ.get(name, os.environ.get(name))\<close>.\<close>

definition getenv :: "'w os \<Rightarrow> (string \<rightharpoonup> string) \<Rightarrow> string \<Rightarrow> string option" where
  "getenv os environ name =
     (case environ name of Some v \<Rightarrow> Some v | None \<Rightarrow> os_environ os name)"

text \<open>\<open>path.split('/', 1)\<close> for a path that contains a slash.\<close>

definition split_first_slash :: "string \<Rightarrow> string \<times> string" where
  "split_first_slash p =
     (takeWhile (\<lambda>c. c \<noteq> CHR ''/'') p, drop 1 (dropWhile (\<lambda>c. c \<noteq> CHR ''/'') p))"

definition parse_path :: "'w os \<Rightarrow> (string \<rightharpoonup> string) \<Rightarrow> string option \<times> string option" where
  "parse_path os environ =
     (let path0 = drop 1 (case environ ''PATH_INFO'' of Some p \<Rightarrow> p | None \<Rightarrow> ''/'');
          split = (truthy (getenv os environ ''IRCLOG_CHAN_DIR'') \<and> CHR ''/'' \<in> set path0);
          channel = (if split then Some (fst (split_first_slash path0)) else None);
          path = (if split then snd (split_first_slash path0) else path0)
      in if channel = Some ''..'' then (None, None)
         else if CHR ''/'' \<in> set path \<or> CHR 0x5C \<in> set path then (channel, None)
         else (channel, Some (if path \<noteq> [] then path else ''index.html'')))"

definition log_listing :: "'w os \<Rightarrow> 'w \<Rightarrow> string \<Rightarrow> string \<Rightarrow> string option \<Rightarrow> error + string" where
  "log_listing os w path pat channel =
     (case find_log_files os w path pat of
        Inl e \<Rightarrow> Inl e
      | Inr found \<Rightarrow>
          Inr (index_text os
                 (if truthy channel then ''IRC logs of '' @ the channel else ''IRC logs'')
                 (rev found) True None))"

text \<open>\<open>dynamic_log\<close>: the \<open>LogFile\<close> is built before the file is opened.\<close>

definition dynamic_log :: "'w os \<Rightarrow> 'w \<Rightarrow> string \<Rightarrow> string option \<Rightarrow> error + string" where
  "dynamic_log os w path channel =
     (case LogFile_init os path of
        Inl e \<Rightarrow> Inl e
      | Inr lf \<Rightarrow>
          (case open_read os w path of
             Inl e \<Rightarrow> Inl e
           | Inr bytes \<Rightarrow>
               convert_irc_log os bytes
                 ((if truthy channel then ''IRC log of '' @ the channel else ''IRC log'')
                  @ '' for '' @ strftime os (date lf) ''%A, %Y-%m-%d'')))"

record response =
  status :: string
  content_type :: string
  body :: "string list"

definition not_found :: response where
  "not_found = \<lparr>status = ''404 Not Found'', content_type = ''text/plain'', body = [''Not found'']\<rparr>"

definition ok_page :: "string \<Rightarrow> string \<Rightarrow> response" where
  "ok_page ctype text = \<lparr>status = ''200 Ok'', content_type = ctype, body = [text]\<rparr>"

text \<open>What \<open>except (Error, IOError)\<close> catches.\<close>

definition is_Error_or_IOError :: "error \<Rightarrow> bool" where
  "is_Error_or_IOError e = (case e of AppError m \<Rightarrow> True | IOError \<Rightarrow> True | _ \<Rightarrow> False)"

text \<open>
  \<open>application\<close>: the response passed to \<open>start_response\<close> and returned, or the
  exception that leaves the handler.
\<close>

definition serve_file :: "'w os \<Rightarrow> 'w \<Rightarrow> string \<Rightarrow> string \<Rightarrow> string \<Rightarrow> string option
                           \<Rightarrow> error + response" where
  "serve_file os w logfile_path logfile_pattern path channel =
     (case open_read os w (os_path_join logfile_path path) of
        Inl e \<Rightarrow>
          if e \<noteq> IOError then Inl e
          else if path = ''index.html'' then
            (case log_listing os w logfile_path logfile_pattern channel of
               Inl e' \<Rightarrow> Inl e'
             | Inr text \<Rightarrow> Inr (ok_page ''text/html; charset=UTF-8'' text))
          else if endswith path ''.html'' then
            (case dynamic_log os w (os_path_join logfile_path (take (length path - 5) path))
                    channel of
               Inl e' \<Rightarrow> if is_Error_or_IOError e' then Inr not_found else Inl e'
             | Inr text \<Rightarrow> Inr (ok_page ''text/html; charset=UTF-8'' text))
          else Inr not_found
      | Inr bytes \<Rightarrow>
          if endswith path ''.css'' then Inr (ok_page ''text/css'' bytes)
          else if endswith path ''.log'' \<or> endswith path ''.txt''
          then Inr \<lparr>status = ''200 Ok'', content_type = ''text/plain; charset=UTF-8'',
                    body = recode os bytes\<rparr>
          else Inr (ok_page ''text/html; charset=UTF-8'' bytes))"

definition application :: "'w os \<Rightarrow> 'w \<Rightarrow> (string \<rightharpoonup> string) \<Rightarrow> error + response" where
  "application os w environ =
     (let chan_path = getenv os environ ''IRCLOG_CHAN_DIR'';
          location = getenv os environ ''IRCLOG_LOCATION'';
          logfile_path0 = (if truthy location then the location else DEFAULT_LOGFILE_PATH os);
          pat = getenv os environ ''IRCLOG_GLOB'';
          logfile_pattern = (if truthy pat then the pat else DEFAULT_LOGFILE_PATTERN os);
          channel = fst (parse_path os environ);
          path = snd (parse_path os environ)
      in if truthy channel \<and> chan_path = None then Inl TypeError
         else
           (let logfile_path = (if truthy channel then os_path_join (the chan_path) (the channel)
                                else logfile_path0)
            in (case path of
                  None \<Rightarrow> Inr not_found
                | Some p \<Rightarrow>
                    if p = ''index.html'' \<and> truthy chan_path \<and> channel = None then
                      (case dir_listing os w (the chan_path) of
                         Inl e \<Rightarrow> Inl e
                       | Inr text \<Rightarrow> Inr (ok_page ''text/html; charset=UTF-8'' text))
                    else if p = ''search'' then
                      (case search_page os w logfile_path logfile_pattern of
                         Inl e \<Rightarrow> Inl e
                       | Inr text \<Rightarrow> Inr (ok_page ''text/html; charset=UTF-8'' text))
                    else if p = ''irclog.css'' then
                      (case open_read os w (CSS_FILE os) of
                         Inl e \<Rightarrow> if e = IOError then Inr not_found else Inl e
                       | Inr bytes \<Rightarrow> Inr (ok_page ''text/css'' bytes))
                    else serve_file os w logfile_path logfile_pattern p channel)))"

definition demo_request :: "string \<Rightarrow> string \<rightharpoonup> string" where
  "demo_request path = [''PATH_INFO'' \<mapsto> path]"

section \<open>Properties of the line classifier\<close>

lemma startswith_Nil: "startswith s [] = True"
  by (simp add: startswith_def)

lemma startswith_Cons:
  "startswith s (c # p) = (case s of [] \<Rightarrow> False | x # xs \<Rightarrow> x = c \<and> startswith xs p)"
  by (cases s) (auto simp: startswith_def)

text \<open>
  A line with one of the three server prefixes is neither a comment nor an action, and the
  prefixes exclude one another.
\<close>

lemma stars_not_comment:
  "startswith line ''*** '' \<Longrightarrow> NICK_REGEXP_match line = None \<and> \<not> startswith line ''* ''"
  by (auto simp: startswith_Cons startswith_Nil NICK_REGEXP_match_def take_char_def newline_def
      split: list.splits)

lemma arrow_not_comment:
  "startswith line ''--> '' \<Longrightarrow>
     NICK_REGEXP_match line = None \<and> \<not> startswith line ''* '' \<and> \<not> startswith line ''*** ''"
  by (auto simp: startswith_Cons startswith_Nil NICK_REGEXP_match_def take_char_def newline_def
      split: list.splits)

lemma dashes_not_earlier:
  "startswith line ''--- '' \<Longrightarrow>
     NICK_REGEXP_match line = None \<and> \<not> startswith line ''* '' \<and> \<not> startswith line ''*** ''
     \<and> \<not> startswith line ''--> ''"
  by (auto simp: startswith_Cons startswith_Nil NICK_REGEXP_match_def take_char_def newline_def
      split: list.splits)

text \<open>
  The chain of branches raises exactly on the lines that reach the nick-change branch and
  match its pattern: those with the prefix \<open>---\<close> (a line with the prefix \<open>***\<close> is a
  \<open>JOIN\<close> before the pattern is tried).
\<close>

lemma classify_rest_fails_iff:
  "(\<exists>e. classify_rest time line = Inl e) \<longleftrightarrow>
     (startswith line ''--- '' \<and> NICK_CHANGE_REGEXP_match line \<noteq> None)"
proof (cases "startswith line ''*** ''")
  case True
  then show ?thesis
    using dashes_not_earlier [of line] stars_not_comment [of line]
    by (auto simp: classify_rest_def)
next
  case False
  show ?thesis
  proof (cases "startswith line ''--- ''")
    case True
    then show ?thesis
      using dashes_not_earlier [of line]
      by (auto simp: classify_rest_def split: option.splits)
  next
    case nd: False
    with False have "NICK_CHANGE_REGEXP_match line = None"
      by (simp add: NICK_CHANGE_REGEXP_match_def)
    with nd show ?thesis
      by (auto simp: classify_rest_def split: option.splits)
  qed
qed

lemma classify_rest_NameError:
  "classify_rest time line = Inl e \<Longrightarrow> e = NameError ''oldnick''"
  by (auto simp: classify_rest_def split: option.splits if_splits)

text \<open>
  C1. A line that reaches the nick-change branch and matches its pattern should yield a
  \<open>NICKCHANGE\<close> event carrying the two names of the match. The pattern does capture
  \<open>alice\<close> and \<open>alice2\<close>, but the branch raises \<open>NameError\<close> instead of yielding; and the
  example of the claim, with the prefix \<open>***\<close>, never reaches the branch: it is a
  \<open>JOIN\<close>.
\<close>

theorem nick_change_raises_NameError:
  "NICK_CHANGE_REGEXP_match ''--- alice is now known as alice2'' = Some (''alice'', ''alice2'')
   \<and> classify ''--- alice is now known as alice2'' = Inl (NameError ''oldnick'')
   \<and> classify ''*** alice is now known as alice2''
       = Inr (None, JOIN, Line ''*** alice is now known as alice2'')"
  by code_simp

text \<open>
  C2. Classification should be total on non-empty stripped lines. It is not: the
  nick-change line below is non-empty and stripped, the classifier raises on it, and the
  iteration over a log stops there, losing the lines that follow.
\<close>

theorem classify_not_total:
  "rstrip_crlf ''[12:00] --- bob is now known as rob'' = ''[12:00] --- bob is now known as rob''
   \<and> classify ''[12:00] --- bob is now known as rob'' = Inl (NameError ''oldnick'')
   \<and> LogParser_iter [''<a> hi'', ''[12:00] --- bob is now known as rob'', ''<a> bye'']
       = ([(None, COMMENT, NickText ''a'' ''hi'')], Some (NameError ''oldnick''))"
  by code_simp

text \<open>
  C3, as stated, fails where a line with the prefix \<open>-->\<close> contains both \<open>joined\<close> and
  \<open>left\<close>: the join branch comes first and wins.
\<close>

theorem part_after_join_counterexample:
  "startswith ''--> joined then left'' ''--> '' \<and> contains ''--> joined then left'' ''left''
   \<and> classify ''--> joined then left'' \<noteq> Inr (None, PART, Line ''--> joined then left'')
   \<and> classify ''--> joined then left'' = Inr (None, JOIN, Line ''--> joined then left'')"
  by code_simp

text \<open>
  C3, amended. Let \<open>line\<close> be what is left of a raw line after its time stamp. If
  \<open>line\<close> starts with \<open>***\<close> it is a \<open>JOIN\<close> whatever else it contains; if it starts
  with \<open>-->\<close> it is a \<open>JOIN\<close> when it contains \<open>joined\<close>, and a \<open>PART\<close> when it does
  not contain \<open>joined\<close> and contains \<open>left\<close> or \<open>quit\<close>; and no line starting with
  \<open>***\<close> is a \<open>PART\<close>. (Such lines are never comments or actions, so that condition of
  the claim needs no hypothesis.)
\<close>

theorem join_part_precedence:
  assumes "strip_time raw = (time, line)"
  shows "(startswith line ''*** '' \<longrightarrow> classify raw = Inr (time, JOIN, Line line))
       \<and> (startswith line ''--> '' \<and> contains line ''joined''
            \<longrightarrow> classify raw = Inr (time, JOIN, Line line))
       \<and> (startswith line ''--> '' \<and> \<not> contains line ''joined''
              \<and> (contains line ''left'' \<or> contains line ''quit'')
            \<longrightarrow> classify raw = Inr (time, PART, Line line))
       \<and> (kind_of (classify raw) = Some PART \<longrightarrow> \<not> startswith line ''*** '')"
proof -
  have c: "classify raw = classify_rest time line"
    using assms by (simp add: classify_def)
  have 1: "classify_rest time line = Inr (time, JOIN, Line line)" if "startswith line ''*** ''"
    using that stars_not_comment [OF that] by (simp add: classify_rest_def)
  have 2: "classify_rest time line = Inr (time, JOIN, Line line)"
    if "startswith line ''--> ''" "contains line ''joined''"
    using that arrow_not_comment [OF that(1)] by (simp add: classify_rest_def)
  have 3: "classify_rest time line = Inr (time, PART, Line line)"
    if "startswith line ''--> ''" "\<not> contains line ''joined''"
       "contains line ''left'' \<or> contains line ''quit''"
    using that arrow_not_comment [OF that(1)] by (simp add: classify_rest_def)
  have 4: "\<not> startswith line ''*** ''" if "kind_of (classify_rest time line) = Some PART"
    using that 1 by (auto simp: kind_of_def)
  show ?thesis
    unfolding c using 1 2 3 4 by blast
qed

theorem join_part_precedence_witness:
  "classify ''*** alice has joined #chan''
     = Inr (None, JOIN, Line ''*** alice has joined #chan'')
   \<and> classify ''[12:00] --> carol has joined #chan''
     = Inr (Some ''12:00'', JOIN, Line ''--> carol has joined #chan'')
   \<and> classify ''--> bob has quit'' = Inr (None, PART, Line ''--> bob has quit'')
   \<and> \<not> startswith ''--> bob has quit'' ''*** ''"
proof -
  have a: "strip_time ''*** alice has joined #chan'' = (None, ''*** alice has joined #chan'')"
    by code_simp
  have b: "strip_time ''[12:00] --> carol has joined #chan''
             = (Some ''12:00'', ''--> carol has joined #chan'')"
    by code_simp
  have c: "strip_time ''--> bob has quit'' = (None, ''--> bob has quit'')"
    by code_simp
  have a1: "startswith ''*** alice has joined #chan'' ''*** ''" by code_simp
  have b1: "startswith ''--> carol has joined #chan'' ''--> ''
            \<and> contains ''--> carol has joined #chan'' ''joined''" by code_simp
  have c1: "startswith ''--> bob has quit'' ''--> '' \<and> \<not> contains ''--> bob has quit'' ''joined''
            \<and> (contains ''--> bob has quit'' ''left'' \<or> contains ''--> bob has quit'' ''quit'')"
    by code_simp
  have c2: "kind_of (Inr (None, PART, Line ''--> bob has quit'')) = Some PART"
    by (simp add: kind_of_def)
  from join_part_precedence [OF a] join_part_precedence [OF b] join_part_precedence [OF c]
    a1 b1 c1 c2
  show ?thesis by metis
qed

section \<open>Properties of the link and colour code\<close>

text \<open>
  C5. A bare URL should be replaced by an anchor whose \<open>href\<close> and text are the URL.
  The pattern does match the URL, but the replacement is the expansion of the template,
  an anchor whose \<open>href\<close> and text are the character with code 0: the URL is lost.
\<close>

theorem createlinks_loses_url:
  "URL_REGEXP_match ''http://example.org/ now'' = Some (''http://example.org/'', '' now'')
   \<and> createlinks ''see http://example.org/ now''
       = ''see <a href='' @ [CHR 0x22, CHR 0x00, CHR 0x22] @ ''>'' @ [CHR 0x00] @ ''</a> now''
   \<and> createlinks ''see http://example.org/ now''
       \<noteq> ''see <a href='' @ [CHR 0x22] @ ''http://example.org/'' @ [CHR 0x22]
           @ ''>http://example.org/</a> now''"
  by code_simp

text \<open>
  C8, as stated, fails for a rename of a known nickname to itself: the old name is still
  a key afterwards.
\<close>

theorem rename_to_itself_counterexample:
  "''a'' \<in> dom (nick_colour demo_colourizer)
   \<and> ''a'' \<in> dom (nick_colour (nickchange demo_colourizer ''a'' ''a''))"
  by (simp add: demo_colourizer_def nickchange_def)

text \<open>
  C8, amended. If the old name is a key of the table, then after the rename the new name
  maps to the old name's former colour, the old name is no longer a key provided the two
  names differ (a rename of a name to itself leaves the colourizer as it was), and every
  other key keeps its entry. If the old name is not a key the rename changes nothing.
  The chooser and the two counters are never touched.
\<close>

theorem nickchange_moves_entry:
  "(oldnick \<in> dom (nick_colour nc) \<longrightarrow>
      nick_colour (nickchange nc oldnick newnick) newnick = nick_colour nc oldnick
      \<and> (oldnick \<noteq> newnick \<longrightarrow> oldnick \<notin> dom (nick_colour (nickchange nc oldnick newnick)))
      \<and> (oldnick = newnick \<longrightarrow> nickchange nc oldnick newnick = nc)
      \<and> (\<forall>k. k \<noteq> oldnick \<and> k \<noteq> newnick \<longrightarrow>
            nick_colour (nickchange nc oldnick newnick) k = nick_colour nc k))
   \<and> (oldnick \<notin> dom (nick_colour nc) \<longrightarrow> nickchange nc oldnick newnick = nc)
   \<and> colour_chooser (nickchange nc oldnick newnick) = colour_chooser nc
   \<and> nickcount (nickchange nc oldnick newnick) = nickcount nc
   \<and> maxnicks (nickchange nc oldnick newnick) = maxnicks nc"
  by (auto simp: nickchange_def fun_upd_idem_iff)

theorem nickchange_moves_entry_witness:
  "nick_colour (nickchange demo_colourizer ''a'' ''b'') ''b'' = Some ''#4c924c''
   \<and> ''a'' \<notin> dom (nick_colour (nickchange demo_colourizer ''a'' ''b''))
   \<and> nickchange demo_colourizer ''a'' ''a'' = demo_colourizer
   \<and> nickchange demo_colourizer ''c'' ''d'' = demo_colourizer"
proof -
  have a: "''a'' \<in> dom (nick_colour demo_colourizer)"
    and c: "''c'' \<notin> dom (nick_colour demo_colourizer)"
    and v: "nick_colour demo_colourizer ''a'' = Some ''#4c924c''"
    by (simp_all add: demo_colourizer_def)
  have ne: "''a'' \<noteq> ''b''" by simp
  from nickchange_moves_entry [of "''a''" demo_colourizer "''b''"]
       nickchange_moves_entry [of "''a''" demo_colourizer "''a''"]
       nickchange_moves_entry [of "''c''" demo_colourizer "''d''"] a c v ne
  show ?thesis by metis
qed


subsection \<open>The colour magnitude\<close>

text \<open>What a rounding function does to bounds.\<close>

lemma rounding_id: "rounding id"
  by (simp add: rounding_def mono_def)

lemma rounding_close: "rounding rnd \<Longrightarrow> \<bar>rnd x - x\<bar> \<le> \<bar>x\<bar> / 1000"
proof -
  assume r: "rounding rnd"
  then have "\<bar>rnd x - x\<bar> \<le> \<bar>x\<bar> / 2 ^ 53" by (simp add: rounding_def)
  moreover have "\<bar>x\<bar> / 2 ^ 53 \<le> \<bar>x\<bar> / 1000"
    by (rule divide_left_mono) simp_all
  ultimately show ?thesis by linarith
qed

lemma rounding_nonneg: "rounding rnd \<Longrightarrow> 0 \<le> x \<Longrightarrow> 0 \<le> rnd x"
  using rounding_close [of rnd x] by linarith

lemma rounding_nonpos: "rounding rnd \<Longrightarrow> x \<le> 0 \<Longrightarrow> rnd x \<le> 0"
  using rounding_close [of rnd x] by linarith


lemma rounding_upper:
  "rounding rnd \<Longrightarrow> 0 \<le> x \<Longrightarrow> x \<le> hi \<Longrightarrow> rnd x \<le> hi * (1001 / 1000)"
  using rounding_close [of rnd x] by linarith

lemma rounding_lower:
  "rounding rnd \<Longrightarrow> 0 \<le> lo \<Longrightarrow> lo \<le> x \<Longrightarrow> lo * (999 / 1000) \<le> rnd x"
  using rounding_close [of rnd x] by linarith

lemma rounding_lower_neg:
  "rounding rnd \<Longrightarrow> x \<le> 0 \<Longrightarrow> lo \<le> x \<Longrightarrow> lo * (1001 / 1000) \<le> rnd x"
  using rounding_close [of rnd x] by linarith


text \<open>Values that stay within the range of a double.\<close>

lemma fl_finite: "\<bar>rnd x\<bar> < float_limit \<Longrightarrow> fl rnd x = Fin (rnd x)"
  by (simp add: fl_def)

lemma float_of_int_finite:
  "\<bar>rnd (of_int k)\<bar> < float_limit \<Longrightarrow> float_of_int rnd k = Inr (rnd (of_int k))"
  by (simp add: float_of_int_def)

lemma float_limit_256: "256 < float_limit"
  by (simp add: float_limit_def)

lemma below_float_limit:
  assumes "n \<le> 2 ^ 1017"
  shows "128 * (of_int n :: rat) \<le> float_limit"
proof -
  have "(of_int n :: rat) \<le> of_int (2 ^ 1017)"
    using assms by (simp only: of_int_le_iff)
  then have "128 * (of_int n :: rat) \<le> 128 * of_int (2 ^ 1017)"
    by simp
  also have "\<dots> = float_limit"
    by (simp add: float_limit_def)
  finally show ?thesis .
qed

text \<open>
  With the default bounds, and \<open>n\<close> up to \<open>2\<^sup>1\<^sup>0\<^sup>1\<^sup>7\<close>, no conversion raises and no
  operation overflows: the magnitude is the rounded formula, between 0 and 241.
\<close>

lemma magnitude_finite:
  assumes rr: "rounding rnd" and lo: "rgbmin cc = 240" and hi: "rgbmax cc = 125"
    and n1: "1 \<le> n" and nB: "n \<le> 2 ^ 1017" and i0: "0 \<le> i" and "i < n"
  shows "magnitude rnd cc i n
           = Inr (Fin (rnd (rnd 240 + rnd (rnd (rnd (- 115) * rnd (of_int (n - i)))
                                          / rnd (of_int n)))))
         \<and> 0 \<le> rnd (rnd 240 + rnd (rnd (rnd (- 115) * rnd (of_int (n - i))) / rnd (of_int n)))
         \<and> rnd (rnd 240 + rnd (rnd (rnd (- 115) * rnd (of_int (n - i))) / rnd (of_int n)))
             \<le> 241"
proof -
  define k where "k = (of_int (n - i) :: rat)"
  define A where "A = rnd (- 115)"
  define K where "K = rnd k"
  define N where "N = rnd (of_int n)"
  define P where "P = rnd (A * K)"
  define Q where "Q = rnd (P / N)"
  define L where "L = rnd 240"
  define M where "M = rnd (L + Q)"
  have k: "1 \<le> k" "k \<le> of_int n"
    using assms by (simp_all add: k_def)
  have lim: "128 * k \<le> float_limit" "128 * (of_int n :: rat) \<le> float_limit"
    using below_float_limit [OF nB] k by linarith+
  have d: "(of_int (rgbmax cc - rgbmin cc) :: rat) = - 115" "(of_int (rgbmin cc) :: rat) = 240"
    using lo hi by simp_all
  have A: "- (11512 / 100) \<le> A" "A \<le> 0"
    unfolding A_def
    using rounding_lower_neg [OF rr, of "- 115" "- 115"] rounding_nonpos [OF rr, of "- 115"]
    by simp_all
  have K: "0 \<le> K" "K \<le> k * (1001 / 1000)"
    unfolding K_def using rounding_nonneg [OF rr, of k] rounding_upper [OF rr, of k k] k
    by simp_all
  have N: "k * (999 / 1000) \<le> N" "N \<le> of_int n * (1001 / 1000)"
    unfolding N_def
    using rounding_lower [OF rr, of k "of_int n"] rounding_upper [OF rr, of "of_int n" "of_int n"] k
    by simp_all
  have Npos: "0 < N" using N k by linarith
  have AK: "- (11512 / 100) * K \<le> A * K" "A * K \<le> 0"
    using mult_right_mono [OF A(1) K(1)] mult_nonpos_nonneg [OF A(2) K(1)] by simp_all
  have P: "- (1154 / 10) * k \<le> P" "P \<le> 0"
    unfolding P_def
    using rounding_lower_neg [OF rr AK(2) AK(1)] rounding_nonpos [OF rr AK(2)] K
    by linarith+
  have PN1: "- (1156 / 10) * N \<le> P"
    using P N k by linarith
  have PN: "- (1156 / 10) \<le> P / N" "P / N \<le> 0"
    using Npos PN1 P by (simp_all add: pos_le_divide_eq divide_nonpos_pos)
  have Q: "- 116 \<le> Q" "Q \<le> 0"
    unfolding Q_def
    using rounding_lower_neg [OF rr PN(2) PN(1)] rounding_nonpos [OF rr PN(2)]
    by linarith+
  have L: "239 \<le> L" "L \<le> 24024 / 100"
    unfolding L_def
    using rounding_lower [OF rr, of 240 240] rounding_upper [OF rr, of 240 240]
    by simp_all
  have s: "0 \<le> L + Q" "L + Q \<le> 24024 / 100"
    using L Q by linarith+
  have M: "0 \<le> M" "M \<le> 241"
    unfolding M_def using rounding_nonneg [OF rr s(1)] rounding_upper [OF rr s] by linarith+
  have fK: "float_of_int rnd (n - i) = Inr K"
    unfolding K_def k_def
    by (rule float_of_int_finite) (use K lim k in \<open>simp add: K_def k_def\<close>)
  have "\<bar>rnd (- 115)\<bar> < float_limit"
    using A [unfolded A_def] float_limit_256 by linarith
  then have fA: "float_of_int rnd (rgbmax cc - rgbmin cc) = Inr A"
    unfolding A_def d(1) [symmetric] by (rule float_of_int_finite)
  have fN: "float_of_int rnd n = Inr N"
    unfolding N_def
    by (rule float_of_int_finite) (use N Npos lim in \<open>simp add: N_def\<close>)
  have "\<bar>rnd 240\<bar> < float_limit"
    using L [unfolded L_def] float_limit_256 by linarith
  then have fL: "float_of_int rnd (rgbmin cc) = Inr L"
    unfolding L_def d(2) [symmetric] by (rule float_of_int_finite)
  have fP: "fl rnd (A * K) = Fin P"
    unfolding P_def by (rule fl_finite) (use P lim k in \<open>simp add: P_def\<close>)
  have fQ: "fl rnd (P / N) = Fin Q"
    unfolding Q_def by (rule fl_finite) (use Q float_limit_256 in \<open>simp add: Q_def\<close>)
  have fM: "fl rnd (L + Q) = Fin M"
    unfolding M_def by (rule fl_finite) (use M float_limit_256 in \<open>simp add: M_def\<close>)
  have "magnitude rnd cc i n = Inr (Fin M)"
    using Npos by (simp add: magnitude_def fK fA fN fL fP fQ fM)
  moreover have "M = rnd (rnd 240 + rnd (rnd (rnd (- 115) * rnd (of_int (n - i)))
                                         / rnd (of_int n)))"
    by (simp add: M_def L_def Q_def P_def N_def K_def A_def k_def)
  ultimately show ?thesis using M by simp
qed


text \<open>Evaluating the colour code at a concrete input.\<close>

lemma hex_nat_small: "n < 16 \<Longrightarrow> hex_nat n = [hexdigit n]"
  by (subst hex_nat.simps) simp

lemma hex_nat_byte:
  "16 \<le> n \<Longrightarrow> n < 256 \<Longrightarrow> hex_nat n = [hexdigit (n div 16), hexdigit (n mod 16)]"
proof -
  assume a: "16 \<le> n" "n < 256"
  then have "n div 16 < 16" by simp
  then have "hex_nat (n div 16) = [hexdigit (n div 16)]" by (rule hex_nat_small)
  with a show ?thesis by (subst hex_nat.simps) simp
qed

lemma floor_numeral_divide:
  "\<lfloor>numeral a / numeral b :: rat\<rfloor> = numeral a div numeral b"
  using floor_divide_of_int_eq [of "numeral a" "numeral b", where ?'a = rat] by simp

lemmas choose_eval =
  ColourChooser_choose_def magnitude_def float_of_int_def fl_def float_limit_def
  colour_channel_def py_int_def byte_range_def fmt_02x_def hex_nat_small hex_nat_byte
  hexdigit_def Let_def floor_numeral_divide exact_default_chooser_def

lemma default_exact: "ColourChooser_default id = Inr exact_default_chooser"
  by (simp add: ColourChooser_default_def ColourChooser_init_def unit_interval_def
      exact_default_chooser_def)






subsection \<open>The colour string\<close>

lemma hexdigit_lower: "d < 16 \<Longrightarrow> hexdigit d \<in> set ''0123456789abcdef''"
  unfolding hexdigit_def by (rule nth_mem) simp

lemma fmt_02x_byte:
  assumes "byte_range v"
  shows "fmt_02x v = [hexdigit (nat v div 16), hexdigit (nat v mod 16)]"
proof (cases "nat v < 16")
  case True
  then have "hex_nat (nat v) = [hexdigit (nat v)]" by (rule hex_nat_small)
  moreover have "hexdigit 0 = CHR ''0''" by (simp add: hexdigit_def)
  ultimately show ?thesis
    using assms True by (simp add: fmt_02x_def byte_range_def)
next
  case False
  moreover have "nat v < 256" using assms unfolding byte_range_def by linarith
  ultimately have "hex_nat (nat v) = [hexdigit (nat v div 16), hexdigit (nat v mod 16)]"
    by (intro hex_nat_byte) simp_all
  then show ?thesis
    using assms by (simp add: fmt_02x_def byte_range_def)
qed

lemma fmt_02x_hex:
  assumes "byte_range v"
  shows "length (fmt_02x v) = 2 \<and> list_all (\<lambda>d. d \<in> set ''0123456789abcdef'') (fmt_02x v)"
proof -
  have "nat v < 256" using assms unfolding byte_range_def by linarith
  then have "nat v div 16 < 16" by simp
  moreover have "nat v mod 16 < 16" by simp
  ultimately show ?thesis
    unfolding fmt_02x_byte [OF assms] using hexdigit_lower by simp
qed

lemma rrggbb_format:
  assumes "byte_range r" and "byte_range g" and "byte_range b"
  shows "is_rrggbb (''#'' @ fmt_02x r @ fmt_02x g @ fmt_02x b)"
  using fmt_02x_hex [OF assms(1)] fmt_02x_hex [OF assms(2)] fmt_02x_hex [OF assms(3)]
  by (simp add: is_rrggbb_def)

lemma channel_byte_range:
  assumes rr: "rounding rnd" and "unit_interval h" and "0 \<le> m" and "m \<le> 241"
  shows "\<exists>v. colour_channel rnd h (Fin m) = Inr v \<and> byte_range v"
proof -
  have hm: "0 \<le> h * m" "h * m \<le> 241"
    using assms mult_mono [of h 1 m 241] by (simp_all add: unit_interval_def)
  then have b: "0 \<le> rnd (h * m)" "rnd (h * m) \<le> 242"
    using rounding_nonneg [OF rr hm(1)] rounding_upper [OF rr hm] by linarith+
  then have "0 \<le> \<lfloor>rnd (h * m)\<rfloor>" "\<lfloor>rnd (h * m)\<rfloor> < 256"
    by (simp_all add: floor_less_iff)
  with b have "byte_range (py_int (rnd (h * m)))"
    by (simp add: byte_range_def py_int_def)
  moreover have "fl rnd (h * m) = Fin (rnd (h * m))"
    by (rule fl_finite) (use b float_limit_256 in linarith)
  ultimately show ?thesis by (simp add: colour_channel_def)
qed

lemma default_chooser:
  assumes rr: "rounding rnd"
  shows "\<exists>cc. ColourChooser_default rnd = Inr cc \<and> rgbmin cc = 240 \<and> rgbmax cc = 125
              \<and> length (rgb cc) = 6
              \<and> (\<forall>(r, g, b) \<in> set (rgb cc). unit_interval r \<and> unit_interval g \<and> unit_interval b)"
proof -
  have a: "unit_interval (rnd (95 / 100))"
    unfolding unit_interval_def
    using rounding_nonneg [OF rr, of "95 / 100"] rounding_upper [OF rr, of "95 / 100" "95 / 100"]
    by simp
  have b: "unit_interval (rnd (5 / 10))"
    unfolding unit_interval_def
    using rounding_nonneg [OF rr, of "5 / 10"] rounding_upper [OF rr, of "5 / 10" "5 / 10"]
    by simp
  show ?thesis
    using a b by (simp add: ColourChooser_default_def ColourChooser_init_def)
qed

text \<open>
  C7, as stated, fails for an \<open>n\<close> beyond the range of a double: \<open>float(n - i)\<close>
  raises \<open>OverflowError\<close>, so no string is returned.
\<close>

theorem choose_overflow_counterexample:
  "ColourChooser_default id = Inr exact_default_chooser
   \<and> ColourChooser_choose id exact_default_chooser 0 (2 ^ 1024) = Inl OverflowError"
  by (simp add: default_exact) (simp add: choose_eval)

text \<open>
  C7, amended. For \<open>1 \<le> n \<le> 2\<^sup>1\<^sup>0\<^sup>1\<^sup>7\<close> and \<open>0 \<le> i < n\<close>, and any rounding, the default
  construction succeeds and \<open>choose(i, n)\<close> on it returns a string: the three channels
  pass the range assertions (each lies in \<open>[0, 255]\<close>) and the string is \<open>#\<close> followed
  by six lower-case hexadecimal digits. A call with \<open>n = 0\<close> returns what the call with
  \<open>n = 1\<close> returns, for every chooser and index.
\<close>

theorem choose_in_range:
  assumes rr: "rounding rnd" and n1: "1 \<le> n" and nB: "n \<le> 2 ^ 1017"
    and i0: "0 \<le> i" and ilt: "i < n"
  shows "(\<exists>cc r g b. ColourChooser_default rnd = Inr cc
           \<and> ColourChooser_choose rnd cc i n = Inr (''#'' @ fmt_02x r @ fmt_02x g @ fmt_02x b)
           \<and> byte_range r \<and> byte_range g \<and> byte_range b
           \<and> is_rrggbb (''#'' @ fmt_02x r @ fmt_02x g @ fmt_02x b))
       \<and> (\<forall>cc' i'. ColourChooser_choose rnd cc' i' 0 = ColourChooser_choose rnd cc' i' 1)"
proof -
  from default_chooser [OF rr] obtain cc where cc: "ColourChooser_default rnd = Inr cc"
    and lo: "rgbmin cc = 240" and hi: "rgbmax cc = 125" and len: "length (rgb cc) = 6"
    and hues: "\<forall>(r, g, b) \<in> set (rgb cc). unit_interval r \<and> unit_interval g \<and> unit_interval b"
    by blast
  obtain hr hg hb where t: "rgb cc ! nat (i mod int (length (rgb cc))) = (hr, hg, hb)"
    by (cases "rgb cc ! nat (i mod int (length (rgb cc)))")
  have "nat (i mod int (length (rgb cc))) < length (rgb cc)"
    using len by simp
  then have "(hr, hg, hb) \<in> set (rgb cc)"
    unfolding t [symmetric] by (rule nth_mem)
  with hues have h: "unit_interval hr" "unit_interval hg" "unit_interval hb"
    by auto
  from magnitude_finite [OF rr lo hi n1 nB i0 ilt]
  obtain m where m: "magnitude rnd cc i n = Inr (Fin m)" "0 \<le> m" "m \<le> 241"
    by blast
  from channel_byte_range [OF rr h(1) m(2,3)] obtain r
    where r: "colour_channel rnd hr (Fin m) = Inr r" "byte_range r" by blast
  from channel_byte_range [OF rr h(2) m(2,3)] obtain g
    where g: "colour_channel rnd hg (Fin m) = Inr g" "byte_range g" by blast
  from channel_byte_range [OF rr h(3) m(2,3)] obtain b
    where b: "colour_channel rnd hb (Fin m) = Inr b" "byte_range b" by blast
  have ne: "rgb cc \<noteq> []" using len by auto
  have n0: "n \<noteq> 0" using n1 by simp
  have res: "ColourChooser_choose rnd cc i n = Inr (''#'' @ fmt_02x r @ fmt_02x g @ fmt_02x b)"
    using ne n0 by (simp add: ColourChooser_choose_def t m r g b)
  have zero: "\<forall>cc' i'. ColourChooser_choose rnd cc' i' 0 = ColourChooser_choose rnd cc' i' 1"
    by (simp add: ColourChooser_choose_def)
  from cc res r(2) g(2) b(2) rrggbb_format [OF r(2) g(2) b(2)] zero show ?thesis by blast
qed

theorem choose_in_range_witness:
  "ColourChooser_default id = Inr exact_default_chooser
   \<and> ColourChooser_choose id exact_default_chooser 1 4 = Inr ''#4c924c''
   \<and> is_rrggbb ''#4c924c''
   \<and> ColourChooser_choose id exact_default_chooser 0 0 = Inr ''#763e3e''
   \<and> ColourChooser_choose id exact_default_chooser 0 1 = Inr ''#763e3e''"
proof -
  have hyp: "(1::int) \<le> 4" "(4::int) \<le> 2 ^ 1017" "(0::int) \<le> 1" "(1::int) < 4" by simp_all
  have c: "ColourChooser_choose id exact_default_chooser 1 4 = Inr ''#4c924c''"
    by (simp add: choose_eval)
  have z: "ColourChooser_choose id exact_default_chooser 0 1 = Inr ''#763e3e''"
    by (simp add: choose_eval)
  from choose_in_range [OF rounding_id hyp] default_exact c z
  show ?thesis by auto
qed

section \<open>Properties of the archive builder\<close>

subsection \<open>The loop preserves its invariant\<close>














lemma filter_upt_Suc:
  "filter P [0..<Suc n] = filter P [0..<n] @ (if P n then [n] else [])"
  by simp




subsection \<open>What find_log_files returns\<close>











subsection \<open>Which files a run regenerates\<close>




subsection \<open>A file name without a date\<close>



section \<open>Properties of the web application\<close>

text \<open>
  C10. A request for a page that is not cached, whose name carries digits that are no
  calendar date, should end in a not-found response. \<open>dynamic_log\<close> raises
  \<open>ValueError\<close> for such a name on every file system, and \<open>application\<close> catches only
  \<open>Error\<close> and \<open>IOError\<close> around it: the \<open>ValueError\<close> leaves the handler. A name
  with no date at all is caught as the source's comment says.
\<close>

theorem impossible_date_escapes_handler:
  "dynamic_log os w ''/var/www/irclogs/2005-13-45.log'' channel = Inl ValueError
   \<and> application demo_os demo_world (demo_request ''/2005-13-45.log.html'') = Inl ValueError
   \<and> application demo_os demo_world (demo_request ''/notes.log.html'') = Inr not_found"
proof -
  have "dynamic_log os w ''/var/www/irclogs/2005-13-45.log'' channel = Inl ValueError"
    by (simp add: dynamic_log_def LogFile_init_def os_path_basename_def newline_def date_at_def
        take_digits_def isdigit_def opt_char_def take_char_def int_of_digits_def
        digit_value_def datetime_date_def)
  moreover
  have "application demo_os demo_world (demo_request ''/2005-13-45.log.html'') = Inl ValueError"
    by code_simp
  moreover
  have "application demo_os demo_world (demo_request ''/notes.log.html'') = Inr not_found"
    by code_simp
  ultimately show ?thesis by simp
qed

end
